theory Spec2Isabelle
  imports Complex_Main
begin

section \<open>JavaScript values read by the client\<close>

text \<open>
  The frontend works on values that \<^verbatim>\<open>JSON.parse\<close> or axios hand to it. A number is
  modelled as a real (the finite values, with exact arithmetic); an object as the
  association list of its own properties.
\<close>

datatype json =
    JNull
  | JBool bool
  | JNum real
  | JStr string
  | JArr "json list"
  | JObj "(string \<times> json) list"

datatype exn =
    NetworkError
  | HttpError nat
  | NoResponseBody
  | SyntaxError
  | TypeError

text \<open>
  \<^verbatim>\<open>data.p\<close> for the property names the code reads (type, statistics, season, games,
  status): reading a property of \<^verbatim>\<open>null\<close> throws a TypeError; on an object the result is
  the property's value or \<^verbatim>\<open>undefined\<close> (\<open>None\<close>); booleans, numbers, strings and arrays
  have none of these properties.
\<close>

fun js_prop :: "json \<Rightarrow> string \<Rightarrow> json option" where
  "js_prop (JObj kvs) p = map_of kvs p"
| "js_prop _ p = None"

definition get_prop :: "json \<Rightarrow> string \<Rightarrow> exn + json option" where
  "get_prop d p = (if d = JNull then Inl TypeError else Inr (js_prop d p))"

text \<open>Truthiness of a value that may be \<^verbatim>\<open>undefined\<close>.\<close>

fun truthy :: "json option \<Rightarrow> bool" where
  "truthy None = False"
| "truthy (Some JNull) = False"
| "truthy (Some (JBool b)) = b"
| "truthy (Some (JNum x)) = (x \<noteq> 0)"
| "truthy (Some (JStr s)) = (s \<noteq> [])"
| "truthy (Some (JArr xs)) = True"
| "truthy (Some (JObj kvs)) = True"

section \<open>api.ts: the streaming consumer\<close>

text \<open>
  The four callbacks of \<^verbatim>\<open>simulateSeasonsStream\<close> are recorded as a trace of calls, in the
  order in which they are invoked. The callbacks themselves are taken not to throw, and
  the console output is left out of the trace.
\<close>

datatype call =
    OnSeasonUpdate json
  | OnStatsUpdate "json option"
  | OnComplete
  | OnError exn

text \<open>The body of the inner \<^verbatim>\<open>try\<close> after \<^verbatim>\<open>JSON.parse\<close> has returned \<open>data\<close>.\<close>

definition dispatch :: "json \<Rightarrow> exn + call list" where
  "dispatch data =
     (case get_prop data ''type'' of
        Inl e \<Rightarrow> Inl e
      | Inr ty \<Rightarrow>
          if ty = Some (JStr ''final_statistics'') then
            Inr [OnStatsUpdate (js_prop data ''statistics''), OnComplete]
          else if ty = Some (JStr ''cancelled'') then
            Inr [OnComplete]
          else if truthy (js_prop data ''season'') \<and> truthy (js_prop data ''games'') then
            Inr [OnSeasonUpdate data]
          else Inr [])"

definition starts_with :: "string \<Rightarrow> string \<Rightarrow> bool" where
  "starts_with p s = (take (length p) s = p)"

text \<open>
  One line of a chunk. \<open>parse\<close> is \<^verbatim>\<open>JSON.parse\<close>, with \<open>None\<close> where it throws a
  SyntaxError. The inner \<^verbatim>\<open>catch\<close> swallows every exception of the \<^verbatim>\<open>try\<close> block.
\<close>

definition try_line :: "(string \<Rightarrow> json option) \<Rightarrow> string \<Rightarrow> exn + call list" where
  "try_line parse line =
     (case parse (drop 6 line) of
        None \<Rightarrow> Inl SyntaxError
      | Some data \<Rightarrow> dispatch data)"

definition process_line :: "(string \<Rightarrow> json option) \<Rightarrow> string \<Rightarrow> call list" where
  "process_line parse line =
     (if starts_with ''data: '' line then
        (case try_line parse line of Inl e \<Rightarrow> [] | Inr cs \<Rightarrow> cs)
      else [])"

text \<open>\<^verbatim>\<open>chunk.split('\n')\<close>: a string with n newlines has n + 1 pieces.\<close>

fun split_on :: "char \<Rightarrow> string \<Rightarrow> string list" where
  "split_on c [] = [[]]"
| "split_on c (x # xs) =
     (if x = c then [] # split_on c xs
      else (case split_on c xs of
              [] \<Rightarrow> [[x]]
            | l # ls \<Rightarrow> (x # l) # ls))"

definition newline :: char where
  "newline = CHR 0x0A"

definition process_lines :: "(string \<Rightarrow> json option) \<Rightarrow> string list \<Rightarrow> call list" where
  "process_lines parse ls = concat (map (process_line parse) ls)"

definition process_chunk :: "(string \<Rightarrow> json option) \<Rightarrow> string \<Rightarrow> call list" where
  "process_chunk parse chunk = process_lines parse (split_on newline chunk)"

text \<open>
  The response body is what \<^verbatim>\<open>reader.read()\<close> yields: decoded chunks, or a rejected read,
  and \<^verbatim>\<open>done\<close> at the end of the list.
\<close>

datatype read_result = Chunk string | ReadFails

fun read_loop :: "(string \<Rightarrow> json option) \<Rightarrow> read_result list \<Rightarrow> call list \<times> exn option" where
  "read_loop parse [] = ([], None)"
| "read_loop parse (Chunk c # rest) =
     (case read_loop parse rest of (cs, r) \<Rightarrow> (process_chunk parse c @ cs, r))"
| "read_loop parse (ReadFails # rest) = ([], Some NetworkError)"

text \<open>
  The request body (team, num_seasons, season, additional_vars, adjusted_metrics), and
  what \<^verbatim>\<open>fetch\<close> answers to its POST: the promise is rejected, or a response arrives
  with its \<^verbatim>\<open>ok\<close> flag, its status and its body (\<open>None\<close> when \<^verbatim>\<open>response.body\<close> is
  null).
\<close>

record request =
  req_team :: string
  req_num_seasons :: real
  req_season :: string
  req_additional_vars :: json
  req_adjusted_metrics :: json

datatype fetch_result =
    FetchRejected
  | Response bool nat "read_result list option"

text \<open>
  The outer \<^verbatim>\<open>try\<close> block: the calls made, and the exception that left the block, if
  any.
\<close>

definition stream_body ::
    "(request \<Rightarrow> fetch_result) \<Rightarrow> (string \<Rightarrow> json option) \<Rightarrow> request \<Rightarrow> call list \<times> exn option" where
  "stream_body fetch parse req =
     (case fetch req of
        FetchRejected \<Rightarrow> ([], Some NetworkError)
      | Response ok status body \<Rightarrow>
          if \<not> ok then ([], Some (HttpError status))
          else (case body of
                  None \<Rightarrow> ([], Some NoResponseBody)
                | Some reads \<Rightarrow> read_loop parse reads))"

definition simulateSeasonsStream ::
    "(request \<Rightarrow> fetch_result) \<Rightarrow> (string \<Rightarrow> json option) \<Rightarrow> request \<Rightarrow> call list" where
  "simulateSeasonsStream fetch parse req =
     (case stream_body fetch parse req of
        (cs, None) \<Rightarrow> cs
      | (cs, Some e) \<Rightarrow> cs @ [OnError e])"

text \<open>
  \<^verbatim>\<open>healthCheck\<close>: axios rejects the GET (no connection, or a status outside 2xx) or
  resolves with the response data. The result is a sum so that an exception leaving the
  function would be visible as \<open>Inl\<close>.
\<close>

datatype axios_result = Rejected | Resolved json

definition healthCheck :: "(string \<Rightarrow> axios_result) \<Rightarrow> exn + bool" where
  "healthCheck get =
     (case (case get ''/health'' of
              Rejected \<Rightarrow> Inl NetworkError
            | Resolved d \<Rightarrow>
                (case get_prop d ''status'' of
                   Inl e \<Rightarrow> Inl e
                 | Inr st \<Rightarrow> Inr (st = Some (JStr ''healthy'')))) of
        Inl e \<Rightarrow> Inr False
      | Inr b \<Rightarrow> Inr b)"

text \<open>
  The example streams. Each event is a line \<^verbatim>\<open>data: \<close> with a JSON text, followed by a
  blank line. \<open>sample_parse\<close> is \<^verbatim>\<open>JSON.parse\<close> on the texts that the examples hand to
  it: the four JSON texts below give the object they denote, and every other text of
  the examples is a truncated JSON text, which \<^verbatim>\<open>JSON.parse\<close> rejects.
\<close>

definition season_event :: "real \<Rightarrow> json" where
  "season_event n = JObj [(''season'', JNum n), (''games'', JArr [])]"

definition final_event :: json where
  "final_event =
     JObj [(''type'', JStr ''final_statistics''),
           (''statistics'', JObj [(''average_expected_wins'', JNum 41)])]"

definition cancelled_event :: json where
  "cancelled_event =
     JObj [(''type'', JStr ''cancelled''), (''message'', JStr ''stopped'')]"

definition season_1_text :: string where
  \<open>season_1_text = ''{"season":1,"games":[]}''\<close>

definition season_2_text :: string where
  \<open>season_2_text = ''{"season":2,"games":[]}''\<close>

definition final_text :: string where
  \<open>final_text = ''{"type":"final_statistics","statistics":{"average_expected_wins":41}}''\<close>

definition cancelled_text :: string where
  \<open>cancelled_text = ''{"type":"cancelled","message":"stopped"}''\<close>

definition sample_parse :: "string \<Rightarrow> json option" where
  "sample_parse s =
     (if s = season_1_text then Some (season_event 1)
      else if s = season_2_text then Some (season_event 2)
      else if s = final_text then Some final_event
      else if s = cancelled_text then Some cancelled_event
      else None)"

definition sse_event :: "string \<Rightarrow> string" where
  "sse_event payload = ''data: '' @ payload @ [newline, newline]"

definition sample_request :: request where
  "sample_request =
     \<lparr>req_team = ''BOS'', req_num_seasons = 10, req_season = ''2024-25'',
      req_additional_vars = JObj [], req_adjusted_metrics = JObj []\<rparr>"

definition ok_response :: "string list \<Rightarrow> request \<Rightarrow> fetch_result" where
  "ok_response chunks req = Response True 200 (Some (map Chunk chunks))"

section \<open>SimulationControls.tsx: metric adjustments\<close>

text \<open>
  The team profile and the adjusted metrics are objects of number fields, read by key:
  a map from the key to the number, \<open>None\<close> where the key is absent. The value of a
  numeric expression is \<open>Some x\<close> for the finite number \<open>x\<close> and \<open>None\<close> when it is not a
  finite number: an absent field read as a number is NaN, a division by zero is an
  infinity or NaN, and both stay so through the multiplications and subtractions below.
\<close>

type_synonym metrics = "string \<rightharpoonup> real"

type_synonym jsnum = "real option"

definition num_sub :: "jsnum \<Rightarrow> jsnum \<Rightarrow> jsnum" where
  "num_sub a b = (case (a, b) of (Some x, Some y) \<Rightarrow> Some (x - y) | _ \<Rightarrow> None)"

definition num_mul :: "jsnum \<Rightarrow> jsnum \<Rightarrow> jsnum" where
  "num_mul a b = (case (a, b) of (Some x, Some y) \<Rightarrow> Some (x * y) | _ \<Rightarrow> None)"

definition num_div :: "jsnum \<Rightarrow> jsnum \<Rightarrow> jsnum" where
  "num_div a b =
     (case (a, b) of
        (Some x, Some y) \<Rightarrow> if y = 0 then None else Some (x / y)
      | _ \<Rightarrow> None)"

text \<open>\<^verbatim>\<open>prev[metric] || 0\<close>: an absent value and the value 0 both give 0.\<close>

definition or_zero :: "real option \<Rightarrow> real" where
  "or_zero v = (case v of None \<Rightarrow> 0 | Some x \<Rightarrow> if x = 0 then 0 else x)"

text \<open>
  \<^verbatim>\<open>adjustMetric\<close> hands React the update function of the state; the model is that
  function, from the previous state to the next.
\<close>

definition adjustMetric :: "string \<Rightarrow> real \<Rightarrow> metrics \<Rightarrow> metrics" where
  "adjustMetric metric delta prev =
     prev(metric \<mapsto> max 0 (min 1 (or_zero (prev metric) + delta)))"

text \<open>A sequence of \<^verbatim>\<open>adjustMetric\<close> calls, each with its metric key and its delta.\<close>

definition adjust_all :: "(string \<times> real) list \<Rightarrow> metrics \<Rightarrow> metrics" where
  "adjust_all calls prev = fold (\<lambda>(metric, delta). adjustMetric metric delta) calls prev"

text \<open>
  \<^verbatim>\<open>getAdditional\<close>: the formula is a thunk in the source, evaluated only when the metric is
  not at its default; it has no effect, so the model takes its value.
\<close>

definition getAdditional :: "jsnum \<Rightarrow> jsnum \<Rightarrow> jsnum \<Rightarrow> jsnum" where
  "getAdditional adjustedValue originalValue formula =
     (if (case num_sub adjustedValue originalValue of
            None \<Rightarrow> False
          | Some d \<Rightarrow> \<bar>d\<bar> < 1 / 10000)
      then Some 0
      else formula)"

record variables =
  additional_shots_made_2 :: jsnum
  additional_shots_made_3 :: jsnum
  additional_shots_made_ft :: jsnum
  additional_turnovers :: jsnum
  additional_dreb :: jsnum
  additional_oreb :: jsnum
  opp_additional_shots_made_2 :: jsnum
  opp_additional_shots_made_3 :: jsnum
  opp_additional_shots_made_ft :: jsnum
  opp_additional_turnovers :: jsnum
  opp_additional_dreb :: jsnum
  opp_additional_oreb :: jsnum

text \<open>
  \<^verbatim>\<open>calculateVariables\<close>: \<open>None\<close> for an argument is \<^verbatim>\<open>undefined\<close> (no profile found for
  the selected team), and \<open>None\<close> as the result is the empty object of the guard.
\<close>

definition calculateVariables :: "metrics option \<Rightarrow> metrics option \<Rightarrow> variables option" where
  "calculateVariables teamMetrics adjustedMetrics =
     (case (teamMetrics, adjustedMetrics) of
        (Some original, Some adjusted) \<Rightarrow>
          Some \<lparr>
            additional_shots_made_2 = getAdditional
              (adjusted ''fg2_pct'') (original ''fg2_pct'')
              (num_sub (num_mul (adjusted ''fg2_pct'') (original ''fg2a'')) (original ''fg2m'')),
            additional_shots_made_3 = getAdditional
              (adjusted ''fg3_pct'') (original ''FG3_PCT'')
              (num_sub (num_mul (adjusted ''fg3_pct'') (original ''FG3A'')) (original ''FG3M'')),
            additional_shots_made_ft = getAdditional
              (adjusted ''ft_pct'') (original ''FT_PCT'')
              (num_sub (num_mul (adjusted ''ft_pct'') (original ''FTA'')) (original ''FTM'')),
            additional_turnovers = getAdditional
              (adjusted ''tov_pct'') (original ''TM_TOV_PCT'')
              (num_sub (num_mul (adjusted ''tov_pct'') (original ''POSS'')) (original ''TOV'')),
            additional_dreb = getAdditional
              (adjusted ''dreb_pct'') (original ''dreb_pct'')
              (num_sub (num_mul (num_div (original ''DREB'') (original ''dreb_pct''))
                  (adjusted ''dreb_pct'')) (original ''DREB'')),
            additional_oreb = getAdditional
              (adjusted ''oreb_pct'') (original ''OREB_PCT'')
              (num_sub (num_mul (num_div (original ''OREB'') (original ''OREB_PCT''))
                  (adjusted ''oreb_pct'')) (original ''OREB'')),
            opp_additional_shots_made_2 = getAdditional
              (adjusted ''opp_fg2_pct'') (original ''opp_fg2_pct'')
              (num_sub (num_mul (adjusted ''opp_fg2_pct'') (original ''opp_fg2a''))
                  (original ''opp_fg2m'')),
            opp_additional_shots_made_3 = getAdditional
              (adjusted ''opp_fg3_pct'') (original ''OPP_FG3_PCT'')
              (num_sub (num_mul (adjusted ''opp_fg3_pct'') (original ''OPP_FG3A''))
                  (original ''OPP_FG3M'')),
            opp_additional_shots_made_ft = getAdditional
              (adjusted ''opp_ft_pct'') (original ''OPP_FT_PCT'')
              (num_sub (num_mul (adjusted ''opp_ft_pct'') (original ''OPP_FTA''))
                  (original ''OPP_FTM'')),
            opp_additional_turnovers = getAdditional
              (adjusted ''opp_tov_pct'') (original ''OPP_TOV_PCT'')
              (num_sub (num_mul (adjusted ''opp_tov_pct'') (original ''POSS''))
                  (original ''OPP_TOV'')),
            opp_additional_dreb = getAdditional
              (adjusted ''opp_dreb_pct'') (original ''opp_dreb_pct'')
              (num_sub (num_mul (num_div (original ''OPP_DREB'') (original ''opp_dreb_pct''))
                  (adjusted ''opp_dreb_pct'')) (original ''OPP_DREB'')),
            opp_additional_oreb = getAdditional
              (adjusted ''opp_oreb_pct'') (original ''OPP_OREB_PCT'')
              (num_sub (num_mul (num_div (original ''OPP_OREB'') (original ''OPP_OREB_PCT''))
                  (adjusted ''opp_oreb_pct'')) (original ''OPP_OREB'')) \<rparr>
      | _ \<Rightarrow> None)"

subsection \<open>The twelve metrics, for stating the properties\<close>

datatype metric =
    Fg2 | Fg3 | Ft | Tov | Dreb | Oreb
  | OppFg2 | OppFg3 | OppFt | OppTov | OppDreb | OppOreb

text \<open>The key of a metric among the adjusted metrics, and of its baseline in the profile.\<close>

fun adjusted_key :: "metric \<Rightarrow> string" where
  "adjusted_key Fg2 = ''fg2_pct''"
| "adjusted_key Fg3 = ''fg3_pct''"
| "adjusted_key Ft = ''ft_pct''"
| "adjusted_key Tov = ''tov_pct''"
| "adjusted_key Dreb = ''dreb_pct''"
| "adjusted_key Oreb = ''oreb_pct''"
| "adjusted_key OppFg2 = ''opp_fg2_pct''"
| "adjusted_key OppFg3 = ''opp_fg3_pct''"
| "adjusted_key OppFt = ''opp_ft_pct''"
| "adjusted_key OppTov = ''opp_tov_pct''"
| "adjusted_key OppDreb = ''opp_dreb_pct''"
| "adjusted_key OppOreb = ''opp_oreb_pct''"

fun baseline_key :: "metric \<Rightarrow> string" where
  "baseline_key Fg2 = ''fg2_pct''"
| "baseline_key Fg3 = ''FG3_PCT''"
| "baseline_key Ft = ''FT_PCT''"
| "baseline_key Tov = ''TM_TOV_PCT''"
| "baseline_key Dreb = ''dreb_pct''"
| "baseline_key Oreb = ''OREB_PCT''"
| "baseline_key OppFg2 = ''opp_fg2_pct''"
| "baseline_key OppFg3 = ''OPP_FG3_PCT''"
| "baseline_key OppFt = ''OPP_FT_PCT''"
| "baseline_key OppTov = ''OPP_TOV_PCT''"
| "baseline_key OppDreb = ''opp_dreb_pct''"
| "baseline_key OppOreb = ''OPP_OREB_PCT''"

text \<open>The variable that \<^verbatim>\<open>calculateVariables\<close> produces for a metric.\<close>

fun additional :: "metric \<Rightarrow> variables \<Rightarrow> jsnum" where
  "additional Fg2 v = additional_shots_made_2 v"
| "additional Fg3 v = additional_shots_made_3 v"
| "additional Ft v = additional_shots_made_ft v"
| "additional Tov v = additional_turnovers v"
| "additional Dreb v = additional_dreb v"
| "additional Oreb v = additional_oreb v"
| "additional OppFg2 v = opp_additional_shots_made_2 v"
| "additional OppFg3 v = opp_additional_shots_made_3 v"
| "additional OppFt v = opp_additional_shots_made_ft v"
| "additional OppTov v = opp_additional_turnovers v"
| "additional OppDreb v = opp_additional_dreb v"
| "additional OppOreb v = opp_additional_oreb v"

text \<open>
  The redistribution formulas by kind of metric: a rate times the attempts (or the
  possessions) minus the count, and for rebounds the ratio \<open>(REB / REB_PCT) * new_PCT - REB\<close>.
\<close>

definition rate_formula :: "jsnum \<Rightarrow> jsnum \<Rightarrow> jsnum \<Rightarrow> jsnum" where
  "rate_formula attempts made new_pct = num_sub (num_mul new_pct attempts) made"

definition ratio_formula :: "jsnum \<Rightarrow> jsnum \<Rightarrow> jsnum \<Rightarrow> jsnum" where
  "ratio_formula reb reb_pct new_pct = num_sub (num_mul (num_div reb reb_pct) new_pct) reb"

fun redistribution :: "metric \<Rightarrow> metrics \<Rightarrow> jsnum \<Rightarrow> jsnum" where
  "redistribution Fg2 original a = rate_formula (original ''fg2a'') (original ''fg2m'') a"
| "redistribution Fg3 original a = rate_formula (original ''FG3A'') (original ''FG3M'') a"
| "redistribution Ft original a = rate_formula (original ''FTA'') (original ''FTM'') a"
| "redistribution Tov original a = rate_formula (original ''POSS'') (original ''TOV'') a"
| "redistribution Dreb original a =
     ratio_formula (original ''DREB'') (original ''dreb_pct'') a"
| "redistribution Oreb original a =
     ratio_formula (original ''OREB'') (original ''OREB_PCT'') a"
| "redistribution OppFg2 original a =
     rate_formula (original ''opp_fg2a'') (original ''opp_fg2m'') a"
| "redistribution OppFg3 original a =
     rate_formula (original ''OPP_FG3A'') (original ''OPP_FG3M'') a"
| "redistribution OppFt original a =
     rate_formula (original ''OPP_FTA'') (original ''OPP_FTM'') a"
| "redistribution OppTov original a =
     rate_formula (original ''POSS'') (original ''OPP_TOV'') a"
| "redistribution OppDreb original a =
     ratio_formula (original ''OPP_DREB'') (original ''opp_dreb_pct'') a"
| "redistribution OppOreb original a =
     ratio_formula (original ''OPP_OREB'') (original ''OPP_OREB_PCT'') a"

text \<open>
  A metric is unchanged when both values are numbers and their absolute difference is
  below the epsilon.
\<close>

definition unchanged :: "jsnum \<Rightarrow> jsnum \<Rightarrow> bool" where
  "unchanged a b =
     (case (a, b) of (Some x, Some y) \<Rightarrow> \<bar>x - y\<bar> < 1 / 10000 | _ \<Rightarrow> False)"

text \<open>The rebound metrics, with the key of the rebound count of each.\<close>

fun rebound_key :: "metric \<Rightarrow> string option" where
  "rebound_key Dreb = Some ''DREB''"
| "rebound_key Oreb = Some ''OREB''"
| "rebound_key OppDreb = Some ''OPP_DREB''"
| "rebound_key OppOreb = Some ''OPP_OREB''"
| "rebound_key _ = None"

text \<open>A profile and adjusted metrics for the examples.\<close>

definition sample_profile :: metrics where
  "sample_profile =
     [''dreb_pct'' \<mapsto> 7 / 10, ''DREB'' \<mapsto> 2800, ''OREB_PCT'' \<mapsto> 1 / 4, ''OREB'' \<mapsto> 900,
      ''fg2_pct'' \<mapsto> 1 / 2, ''fg2a'' \<mapsto> 4000, ''fg2m'' \<mapsto> 2000]"

definition sample_adjusted :: metrics where
  "sample_adjusted = [''dreb_pct'' \<mapsto> 3 / 4, ''oreb_pct'' \<mapsto> 1 / 4, ''fg2_pct'' \<mapsto> 1 / 2]"

section \<open>SimulationChart.tsx: the chart transform\<close>

record GameData =
  game :: real
  expected_wins :: real
  team_score :: real
  opp_score :: real
  is_win :: bool

record SeasonData =
  season :: real
  games :: "GameData list"
  final_expected_wins :: real
  total_wins :: real
  win_percentage :: real

text \<open>
  A data point is an object with the property \<^verbatim>\<open>game\<close> and one property
  \<^verbatim>\<open>Season n\<close> per charted season number \<open>n\<close>; the property name made from \<open>n\<close> is
  represented by \<open>n\<close> itself.
\<close>

datatype point_key = Game_key | Season_key real

type_synonym dataPoint = "point_key \<rightharpoonup> real"

text \<open>The body of \<^verbatim>\<open>seasons.forEach\<close> for one season.\<close>

definition add_season :: "real \<Rightarrow> SeasonData \<Rightarrow> dataPoint \<Rightarrow> dataPoint" where
  "add_season gameNum s dataPoint =
     (case find (\<lambda>g. game g = gameNum) (games s) of
        None \<Rightarrow> dataPoint
      | Some gameData \<Rightarrow> dataPoint(Season_key (season s) \<mapsto> expected_wins gameData))"

definition gameNumbers :: "real list" where
  "gameNumbers = map (\<lambda>i. real i + 1) [0..<82]"

definition chartData :: "SeasonData list \<Rightarrow> dataPoint list" where
  "chartData seasons =
     map (\<lambda>gameNum. fold (add_season gameNum) seasons [Game_key \<mapsto> gameNum]) gameNumbers"

text \<open>
  What the loop over the seasons leaves under the season number \<open>n\<close> in the point of game
  \<open>g\<close>, said without the loop: the expected wins of the first record of game \<open>g\<close> in the
  last season of the list that has the number \<open>n\<close> and a record of game \<open>g\<close>.
\<close>

definition has_game :: "real \<Rightarrow> SeasonData \<Rightarrow> bool" where
  "has_game g s = (find (\<lambda>r. game r = g) (games s) \<noteq> None)"

definition charted :: "real \<Rightarrow> real \<Rightarrow> SeasonData list \<Rightarrow> real option" where
  "charted n g seasons =
     (case find (\<lambda>s. season s = n \<and> has_game g s) (rev seasons) of
        None \<Rightarrow> None
      | Some s \<Rightarrow> map_option expected_wins (find (\<lambda>r. game r = g) (games s)))"

text \<open>Season records for the examples.\<close>

definition one_game :: "real \<Rightarrow> GameData" where
  "one_game w = \<lparr>game = 1, expected_wins = w, team_score = 100, opp_score = 90, is_win = True\<rparr>"

definition season_one :: "real \<Rightarrow> SeasonData" where
  "season_one w =
     \<lparr>season = 1, games = [one_game w], final_expected_wins = w, total_wins = 1,
      win_percentage = 1\<rparr>"

definition game_record :: "real \<Rightarrow> real \<Rightarrow> GameData" where
  "game_record g w =
     \<lparr>game = g, expected_wins = w, team_score = 100, opp_score = 90, is_win = True\<rparr>"

definition season_record :: "real \<Rightarrow> GameData list \<Rightarrow> SeasonData" where
  "season_record n gs =
     \<lparr>season = n, games = gs, final_expected_wins = 41, total_wins = 41,
      win_percentage = 1 / 2\<rparr>"

section \<open>types/index.ts: the statistics type\<close>



section \<open>Properties of the metric adjustments\<close>

lemma getAdditional_unchanged:
  "getAdditional a b f = (if unchanged a b then Some 0 else f)"
  by (simp add: getAdditional_def unchanged_def num_sub_def split: option.splits)

lemma calculateVariables_Some:
  "calculateVariables (Some original) (Some adjusted)
     = Some (the (calculateVariables (Some original) (Some adjusted)))"
  by (simp add: calculateVariables_def)

lemma additional_calculateVariables:
  "additional m (the (calculateVariables (Some original) (Some adjusted))) =
     (if unchanged (adjusted (adjusted_key m)) (original (baseline_key m)) then Some 0
      else redistribution m original (adjusted (adjusted_key m)))"
  by (cases m)
    (simp_all add: calculateVariables_def getAdditional_unchanged rate_formula_def
      ratio_formula_def)

lemma ratio_formula_Some:
  "ratio_formula (Some reb) (Some pct) (Some new)
     = (if pct = 0 then None else Some (reb / pct * new - reb))"
  by (simp add: ratio_formula_def num_div_def num_mul_def num_sub_def)

lemma redistribution_rebound:
  "rebound_key m = Some k \<Longrightarrow>
   redistribution m original a = ratio_formula (original k) (original (baseline_key m)) a"
  by (cases m) auto

text \<open>
  C1: for each of the twelve metrics, the variable that calculateVariables produces is 0
  when the adjusted value and the baseline are numbers whose absolute difference is below
  the epsilon 1e-4, and otherwise it is the redistribution formula of the metric at the
  adjusted value. A value that is not a number (an absent field) is never unchanged.
\<close>

theorem C1_unchanged_metric_is_zero:
  "\<exists>v. calculateVariables (Some original) (Some adjusted) = Some v
     \<and> (\<forall>m. additional m v =
          (if unchanged (adjusted (adjusted_key m)) (original (baseline_key m)) then Some 0
           else redistribution m original (adjusted (adjusted_key m))))"
  using calculateVariables_Some [of original adjusted]
    additional_calculateVariables [of _ original adjusted]
  by blast

theorem C1_unchanged_metric_witness:
  "\<exists>v. calculateVariables (Some sample_profile) (Some sample_adjusted) = Some v
     \<and> additional_shots_made_2 v = Some 0
     \<and> additional_oreb v = Some 0
     \<and> additional_dreb v = Some 200
     \<and> additional_turnovers v = None"
proof -
  from C1_unchanged_metric_is_zero [of sample_profile sample_adjusted]
  obtain v where v: "calculateVariables (Some sample_profile) (Some sample_adjusted) = Some v"
    and a: "\<And>m. additional m v =
          (if unchanged (sample_adjusted (adjusted_key m)) (sample_profile (baseline_key m))
           then Some 0
           else redistribution m sample_profile (sample_adjusted (adjusted_key m)))"
    by blast
  have "additional_shots_made_2 v = Some 0"
    using a [of Fg2] by (simp add: unchanged_def sample_profile_def sample_adjusted_def)
  moreover have "additional_oreb v = Some 0"
    using a [of Oreb] by (simp add: unchanged_def sample_profile_def sample_adjusted_def)
  moreover have "additional_dreb v = Some 200"
    using a [of Dreb]
    by (simp add: unchanged_def sample_profile_def sample_adjusted_def ratio_formula_Some)
  moreover have "additional_turnovers v = None"
    using a [of Tov]
    by (simp add: unchanged_def sample_profile_def sample_adjusted_def rate_formula_def
        num_mul_def num_sub_def)
  ultimately show ?thesis using v by blast
qed

text \<open>
  C2: for every profile and every adjusted rebound percentage that is not within the
  epsilon of its baseline, the additional rebounds (team and opponent, defensive and
  offensive) are the ratio formula \<open>(REB / REB_PCT) * new_PCT - REB\<close>. On numbers the
  formula is the real arithmetic it names; with a baseline percentage of 0 the division
  leaves the finite numbers and so does the result.
\<close>

theorem C2_rebound_ratio_formula:
  assumes "rebound_key m = Some k"
      and "\<not> unchanged (adjusted (adjusted_key m)) (original (baseline_key m))"
  shows "\<exists>v. calculateVariables (Some original) (Some adjusted) = Some v
     \<and> additional m v
         = ratio_formula (original k) (original (baseline_key m)) (adjusted (adjusted_key m))
     \<and> (\<forall>reb pct new.
           original k = Some reb \<and> original (baseline_key m) = Some pct
             \<and> adjusted (adjusted_key m) = Some new
           \<longrightarrow> additional m v = (if pct = 0 then None else Some (reb / pct * new - reb)))"
proof -
  let ?v = "the (calculateVariables (Some original) (Some adjusted))"
  have a: "additional m ?v
      = ratio_formula (original k) (original (baseline_key m)) (adjusted (adjusted_key m))"
    using assms by (simp add: additional_calculateVariables redistribution_rebound)
  have b: "additional m ?v = (if pct = 0 then None else Some (reb / pct * new - reb))"
    if "original k = Some reb \<and> original (baseline_key m) = Some pct
          \<and> adjusted (adjusted_key m) = Some new" for reb pct new
    using a that by (simp add: ratio_formula_Some)
  from calculateVariables_Some [of original adjusted] a b show ?thesis by blast
qed

theorem C2_rebound_ratio_witness:
  "rebound_key Dreb = Some ''DREB''
   \<and> \<not> unchanged (sample_adjusted (adjusted_key Dreb)) (sample_profile (baseline_key Dreb))
   \<and> (\<exists>v. calculateVariables (Some sample_profile) (Some sample_adjusted) = Some v
        \<and> additional_dreb v = Some (2800 / (7 / 10) * (3 / 4) - 2800)
        \<and> additional_dreb v = Some 200)"
proof -
  have 1: "rebound_key Dreb = Some ''DREB''" by simp
  have 2: "\<not> unchanged (sample_adjusted (adjusted_key Dreb)) (sample_profile (baseline_key Dreb))"
    by (simp add: unchanged_def sample_profile_def sample_adjusted_def)
  have 3: "sample_profile ''DREB'' = Some 2800 \<and> sample_profile (baseline_key Dreb) = Some (7 / 10)
      \<and> sample_adjusted (adjusted_key Dreb) = Some (3 / 4)"
    by (simp add: sample_profile_def sample_adjusted_def)
  from C2_rebound_ratio_formula [where m = Dreb and k = "''DREB''" and original = sample_profile
      and adjusted = sample_adjusted, OF 1 2]
  obtain v where v: "calculateVariables (Some sample_profile) (Some sample_adjusted) = Some v"
    and r: "\<And>reb pct new. sample_profile ''DREB'' = Some reb
             \<and> sample_profile (baseline_key Dreb) = Some pct
             \<and> sample_adjusted (adjusted_key Dreb) = Some new
           \<Longrightarrow> additional Dreb v = (if pct = 0 then None else Some (reb / pct * new - reb))"
    by blast
  from r [OF 3] have "additional_dreb v = Some (2800 / (7 / 10) * (3 / 4) - 2800)" by simp
  with v 1 2 show ?thesis by auto
qed

lemma adjustMetric_same:
  "adjustMetric metric delta prev metric = Some (max 0 (min 1 (or_zero (prev metric) + delta)))"
  by (simp add: adjustMetric_def)

lemma adjustMetric_other:
  "k \<noteq> metric \<Longrightarrow> adjustMetric metric delta prev k = prev k"
  by (simp add: adjustMetric_def)

lemma adjust_all_snoc:
  "adjust_all (calls @ [(metric, delta)]) prev = adjustMetric metric delta (adjust_all calls prev)"
  by (simp add: adjust_all_def)

lemma adjust_all_in_range:
  "k \<in> fst ` set calls \<Longrightarrow> \<exists>v. adjust_all calls prev k = Some v \<and> 0 \<le> v \<and> v \<le> 1"
proof (induction calls rule: rev_induct)
  case Nil
  then show ?case by simp
next
  case (snoc c calls)
  obtain metric delta where c: "c = (metric, delta)" by (cases c)
  show ?case
  proof (cases "k = metric")
    case True
    then show ?thesis by (simp add: c adjust_all_snoc adjustMetric_same)
  next
    case False
    with snoc.prems c have "k \<in> fst ` set calls" by auto
    with snoc.IH False show ?thesis by (simp add: c adjust_all_snoc adjustMetric_other)
  qed
qed

lemma adjust_all_untouched:
  "k \<notin> fst ` set calls \<Longrightarrow> adjust_all calls prev k = prev k"
proof (induction calls rule: rev_induct)
  case Nil
  then show ?case by (simp add: adjust_all_def)
next
  case (snoc c calls)
  obtain metric delta where c: "c = (metric, delta)" by (cases c)
  with snoc show ?case by (simp add: adjust_all_snoc adjustMetric_other)
qed

text \<open>
  C8: one application of adjustMetric stores the sum of the previous value (0 if absent)
  and the delta, clamped to the interval from 0 to 1; so after any sequence of adjustMetric
  calls a metric that was adjusted at least once has a value between 0 and 1, whatever the
  deltas, and a metric that no call names keeps its value.
\<close>

theorem C8_adjusted_metric_in_unit_interval:
  "adjustMetric metric delta prev metric = Some (max 0 (min 1 (or_zero (prev metric) + delta)))
   \<and> (metric \<in> fst ` set calls \<longrightarrow>
        (\<exists>v. adjust_all calls prev metric = Some v \<and> 0 \<le> v \<and> v \<le> 1))
   \<and> (metric \<notin> fst ` set calls \<longrightarrow> adjust_all calls prev metric = prev metric)"
  by (simp add: adjustMetric_same adjust_all_in_range adjust_all_untouched)

theorem C8_adjusted_metric_witness:
  "''fg2_pct'' \<in> fst ` set [(''fg2_pct'', 3 :: real), (''ft_pct'', -5), (''fg2_pct'', - 1 / 4)]
   \<and> adjust_all [(''fg2_pct'', 3), (''ft_pct'', -5), (''fg2_pct'', - 1 / 4)] sample_adjusted
        ''fg2_pct'' = Some (3 / 4)
   \<and> adjust_all [(''fg2_pct'', 3), (''ft_pct'', -5), (''fg2_pct'', - 1 / 4)] sample_adjusted
        ''ft_pct'' = Some 0"
proof -
  let ?calls = "[(''fg2_pct'', 3 :: real), (''ft_pct'', -5), (''fg2_pct'', - 1 / 4)]"
  have m: "''fg2_pct'' \<in> fst ` set ?calls" by simp
  have e: "adjust_all ?calls sample_adjusted ''fg2_pct'' = Some (3 / 4)"
       "adjust_all ?calls sample_adjusted ''ft_pct'' = Some 0"
    by (simp_all add: adjust_all_def adjustMetric_def or_zero_def sample_adjusted_def)
  from C8_adjusted_metric_in_unit_interval [of "''fg2_pct''" 0 sample_adjusted ?calls] m e
  show ?thesis by simp
qed

section \<open>Properties of the streaming consumer\<close>

lemma read_loop_chunks:
  "read_loop parse (map Chunk cs) = (concat (map (process_chunk parse) cs), None)"
  by (induction cs) simp_all

text \<open>
  C3: every season record received before the cancelled event should cause exactly one
  onSeasonUpdate call, and cancellation should be final and distinct from an error. The
  consumer keeps no text between two reads. Two season records and the cancelled event
  cause the calls of the claim when they arrive in one read; when the same text arrives
  in two reads that split the second season record, that record causes no call. The loop
  does not end at the cancelled event either: a read that fails after it still calls
  onError, after onComplete.
\<close>

theorem C3_record_lost_and_error_after_cancel:
  \<open>(sse_event season_1_text @ ''data: {"season":2,"ga'')
       @ (''mes":[]}'' @ [newline, newline] @ sse_event cancelled_text)
     = sse_event season_1_text @ sse_event season_2_text @ sse_event cancelled_text
   \<and> simulateSeasonsStream
       (ok_response
          [sse_event season_1_text @ sse_event season_2_text @ sse_event cancelled_text])
       sample_parse sample_request
     = [OnSeasonUpdate (season_event 1), OnSeasonUpdate (season_event 2), OnComplete]
   \<and> simulateSeasonsStream
       (ok_response [sse_event season_1_text @ ''data: {"season":2,"ga'',
                     ''mes":[]}'' @ [newline, newline] @ sse_event cancelled_text])
       sample_parse sample_request
     = [OnSeasonUpdate (season_event 1), OnComplete]
   \<and> simulateSeasonsStream
       (\<lambda>r. Response True 200
          (Some [Chunk (sse_event season_1_text @ sse_event cancelled_text), ReadFails]))
       sample_parse sample_request
     = [OnSeasonUpdate (season_event 1), OnComplete, OnError NetworkError]\<close>
  by (simp add: simulateSeasonsStream_def stream_body_def ok_response_def process_chunk_def
      process_lines_def process_line_def try_line_def dispatch_def get_prop_def
      starts_with_def sse_event_def newline_def sample_parse_def season_1_text_def
      season_2_text_def final_text_def cancelled_text_def season_event_def cancelled_event_def)

text \<open>
  C4: a body of n season records followed by the final statistics should cause n
  onSeasonUpdate calls, then one onStatsUpdate and one onComplete call. Read in one piece,
  the body of two season records does. When the same text arrives in two reads that split
  the second season record, only one onSeasonUpdate call is made; when the two reads
  split the final statistics event, neither onStatsUpdate nor onComplete is called.
\<close>

theorem C4_split_record_is_lost:
  \<open>(sse_event season_1_text @ ''data: {"season":2,"ga'')
       @ (''mes":[]}'' @ [newline, newline] @ sse_event final_text)
     = sse_event season_1_text @ sse_event season_2_text @ sse_event final_text
   \<and> simulateSeasonsStream
       (ok_response [sse_event season_1_text @ sse_event season_2_text @ sse_event final_text])
       sample_parse sample_request
     = [OnSeasonUpdate (season_event 1), OnSeasonUpdate (season_event 2),
        OnStatsUpdate (js_prop final_event ''statistics''), OnComplete]
   \<and> simulateSeasonsStream
       (ok_response [sse_event season_1_text @ ''data: {"season":2,"ga'',
                     ''mes":[]}'' @ [newline, newline] @ sse_event final_text])
       sample_parse sample_request
     = [OnSeasonUpdate (season_event 1),
        OnStatsUpdate (js_prop final_event ''statistics''), OnComplete]
   \<and> (sse_event season_1_text @ sse_event season_2_text @ ''data: {"type":"final_stat'')
       @ (''istics","statistics":{"average_expected_wins":41}}'' @ [newline, newline])
     = sse_event season_1_text @ sse_event season_2_text @ sse_event final_text
   \<and> simulateSeasonsStream
       (ok_response [sse_event season_1_text @ sse_event season_2_text
                       @ ''data: {"type":"final_stat'',
                     ''istics","statistics":{"average_expected_wins":41}}''
                       @ [newline, newline]])
       sample_parse sample_request
     = [OnSeasonUpdate (season_event 1), OnSeasonUpdate (season_event 2)]\<close>
  by (simp add: simulateSeasonsStream_def stream_body_def ok_response_def process_chunk_def
      process_lines_def process_line_def try_line_def dispatch_def get_prop_def
      starts_with_def sse_event_def newline_def sample_parse_def season_1_text_def
      season_2_text_def final_text_def cancelled_text_def season_event_def final_event_def)

text \<open>
  C5: when fetch is rejected, or the response arrives with a non-ok status, the consumer
  calls onError exactly once and no other callback.
\<close>

theorem C5_failed_request_only_onError:
  assumes "fetch req = FetchRejected \<or> (\<exists>status body. fetch req = Response False status body)"
  shows "\<exists>e. simulateSeasonsStream fetch parse req = [OnError e]"
  using assms by (auto simp: simulateSeasonsStream_def stream_body_def)

theorem C5_failed_request_witness:
  "(\<exists>e. simulateSeasonsStream
          (\<lambda>r. Response False 404 (Some [Chunk (sse_event season_1_text)]))
          sample_parse sample_request = [OnError e])
   \<and> simulateSeasonsStream
        (\<lambda>r. Response False 404 (Some [Chunk (sse_event season_1_text)]))
        sample_parse sample_request = [OnError (HttpError 404)]
   \<and> (\<exists>e. simulateSeasonsStream (\<lambda>r. FetchRejected) sample_parse sample_request = [OnError e])
   \<and> simulateSeasonsStream (\<lambda>r. FetchRejected) sample_parse sample_request
        = [OnError NetworkError]"
proof -
  let ?missing = "\<lambda>r :: request. Response False 404 (Some [Chunk (sse_event season_1_text)])"
  let ?down = "\<lambda>r :: request. FetchRejected"
  have "?missing sample_request = FetchRejected
      \<or> (\<exists>status body. ?missing sample_request = Response False status body)"
    by simp
  then have 1: "\<exists>e. simulateSeasonsStream ?missing sample_parse sample_request = [OnError e]"
    by (rule C5_failed_request_only_onError)
  have "?down sample_request = FetchRejected
      \<or> (\<exists>status body. ?down sample_request = Response False status body)"
    by simp
  then have 2: "\<exists>e. simulateSeasonsStream ?down sample_parse sample_request = [OnError e]"
    by (rule C5_failed_request_only_onError)
  have 3: "simulateSeasonsStream ?missing sample_parse sample_request = [OnError (HttpError 404)]"
    by (simp add: simulateSeasonsStream_def stream_body_def)
  have 4: "simulateSeasonsStream ?down sample_parse sample_request = [OnError NetworkError]"
    by (simp add: simulateSeasonsStream_def stream_body_def)
  from 1 2 3 4 show ?thesis by blast
qed

text \<open>
  C9: a line that does not start with \<^verbatim>\<open>data: \<close>, or whose remainder does not parse, causes
  no call, and the stream goes on: the calls of the whole body are those of the chunks
  before, of the lines before and after it in its chunk, and of the chunks after.
\<close>

theorem C9_malformed_line_skipped:
  assumes "fetch req = Response True st (Some (map Chunk (cs1 @ [c] @ cs2)))"
      and "split_on newline c = ls1 @ [l] @ ls2"
      and "\<not> starts_with ''data: '' l \<or> parse (drop 6 l) = None"
  shows "process_line parse l = []
     \<and> simulateSeasonsStream fetch parse req
         = concat (map (process_chunk parse) cs1)
           @ process_lines parse ls1 @ process_lines parse ls2
           @ concat (map (process_chunk parse) cs2)"
proof -
  have l: "process_line parse l = []"
    using assms(3) by (auto simp: process_line_def try_line_def)
  have "process_chunk parse c = process_lines parse ls1 @ process_lines parse ls2"
    using assms(2) l by (simp add: process_chunk_def process_lines_def)
  moreover have "read_loop parse (map Chunk (cs1 @ [c] @ cs2))
      = (concat (map (process_chunk parse) (cs1 @ [c] @ cs2)), None)"
    by (rule read_loop_chunks)
  ultimately have "simulateSeasonsStream fetch parse req
         = concat (map (process_chunk parse) cs1)
           @ process_lines parse ls1 @ process_lines parse ls2
           @ concat (map (process_chunk parse) cs2)"
    using assms(1) by (simp add: simulateSeasonsStream_def stream_body_def)
  with l show ?thesis by simp
qed

theorem C9_malformed_line_witness:
  \<open>process_line sample_parse ''data: {"season":1,"games'' = []
   \<and> simulateSeasonsStream
       (ok_response [sse_event season_1_text,
          ''data: {"season":1,"games'' @ [newline] @ ''retry: 100'' @ [newline]
            @ sse_event season_2_text,
          sse_event final_text])
       sample_parse sample_request
     = [OnSeasonUpdate (season_event 1), OnSeasonUpdate (season_event 2),
        OnStatsUpdate (Some (JObj [(''average_expected_wins'', JNum 41)])), OnComplete]\<close>
proof -
  let ?bad = \<open>''data: {"season":1,"games''\<close>
  let ?c = "?bad @ [newline] @ ''retry: 100'' @ [newline] @ sse_event season_2_text"
  let ?cs1 = "[sse_event season_1_text]"
  let ?cs2 = "[sse_event final_text]"
  let ?ls2 = \<open>[''retry: 100'', ''data: {"season":2,"games":[]}'', [], []]\<close>
  have f: "ok_response (?cs1 @ [?c] @ ?cs2) sample_request
      = Response True 200 (Some (map Chunk (?cs1 @ [?c] @ ?cs2)))"
    by (simp add: ok_response_def)
  have sp: "split_on newline ?c = [] @ [?bad] @ ?ls2"
    by (simp add: sse_event_def season_2_text_def newline_def)
  have bad: "\<not> starts_with ''data: '' ?bad \<or> sample_parse (drop 6 ?bad) = None"
    by (simp add: sample_parse_def season_1_text_def season_2_text_def final_text_def
        cancelled_text_def)
  have ev: "concat (map (process_chunk sample_parse) ?cs1) = [OnSeasonUpdate (season_event 1)]"
       "process_lines sample_parse ?ls2 = [OnSeasonUpdate (season_event 2)]"
       "concat (map (process_chunk sample_parse) ?cs2)
          = [OnStatsUpdate (Some (JObj [(''average_expected_wins'', JNum 41)])), OnComplete]"
    by (simp_all add: process_chunk_def process_lines_def process_line_def try_line_def
        dispatch_def get_prop_def starts_with_def sse_event_def newline_def sample_parse_def
        season_1_text_def season_2_text_def final_text_def cancelled_text_def
        season_event_def final_event_def)
  from C9_malformed_line_skipped [of "ok_response (?cs1 @ [?c] @ ?cs2)" sample_request 200
      ?cs1 ?c ?cs2 "[]" ?bad ?ls2 sample_parse, OF f sp bad] ev
  show ?thesis by (simp add: process_lines_def)
qed

text \<open>
  C10: healthCheck always returns a boolean, never an exception: true exactly when the GET
  resolves and the status property of the response data is the string healthy, false for
  every other response data (null included) and for a rejected request.
\<close>

theorem C10_healthCheck_total:
  "healthCheck get
     = Inr (\<exists>d. get ''/health'' = Resolved d \<and> js_prop d ''status'' = Some (JStr ''healthy''))"
proof (cases "get ''/health''")
  case Rejected
  then show ?thesis by (simp add: healthCheck_def)
next
  case (Resolved d)
  then show ?thesis
    by (cases "d = JNull") (auto simp: healthCheck_def get_prop_def)
qed

theorem C10_healthCheck_witness:
  "healthCheck (\<lambda>url. Resolved (JObj [(''status'', JStr ''healthy'')])) = Inr True
   \<and> healthCheck (\<lambda>url. Resolved JNull) = Inr False
   \<and> healthCheck (\<lambda>url. Resolved (JObj [(''status'', JStr ''starting'')])) = Inr False
   \<and> healthCheck (\<lambda>url. Rejected) = Inr False"
  using C10_healthCheck_total [of "\<lambda>url. Resolved (JObj [(''status'', JStr ''healthy'')])"]
    C10_healthCheck_total [of "\<lambda>url. Resolved JNull"]
    C10_healthCheck_total [of "\<lambda>url. Resolved (JObj [(''status'', JStr ''starting'')])"]
    C10_healthCheck_total [of "\<lambda>url. Rejected"]
  by simp

section \<open>Properties of the chart transform and of the statistics type\<close>

lemma add_season_game: "add_season g s dp Game_key = dp Game_key"
  by (simp add: add_season_def split: option.splits)

lemma fold_add_season_game: "fold (add_season g) seasons dp Game_key = dp Game_key"
  by (induction seasons arbitrary: dp) (simp_all add: add_season_game)

lemma add_season_hit:
  "season s = n \<Longrightarrow> has_game g s \<Longrightarrow>
   add_season g s dp (Season_key n)
     = map_option expected_wins (find (\<lambda>r. game r = g) (games s))"
  by (auto simp: add_season_def has_game_def split: option.splits)

lemma add_season_miss:
  "\<not> (season s = n \<and> has_game g s) \<Longrightarrow> add_season g s dp (Season_key n) = dp (Season_key n)"
  by (auto simp: add_season_def has_game_def split: option.splits)

lemma charted_snoc_hit:
  "season s = n \<Longrightarrow> has_game g s \<Longrightarrow>
   charted n g (seasons @ [s]) = map_option expected_wins (find (\<lambda>r. game r = g) (games s))"
  by (simp add: charted_def)

lemma charted_snoc_miss:
  "\<not> (season s = n \<and> has_game g s) \<Longrightarrow> charted n g (seasons @ [s]) = charted n g seasons"
  by (auto simp: charted_def)

lemma has_game_find:
  "has_game g s \<Longrightarrow> \<exists>r. find (\<lambda>r. game r = g) (games s) = Some r"
  by (simp add: has_game_def)

lemma fold_add_season_charted:
  "fold (add_season g) seasons dp (Season_key n) =
     (case charted n g seasons of None \<Rightarrow> dp (Season_key n) | Some w \<Rightarrow> Some w)"
proof (induction seasons rule: rev_induct)
  case Nil
  show ?case by (simp add: charted_def)
next
  case (snoc s seasons)
  show ?case
  proof (cases "season s = n \<and> has_game g s")
    case True
    then have n: "season s = n" and h: "has_game g s" by simp_all
    from has_game_find [OF h] obtain r where r: "find (\<lambda>r. game r = g) (games s) = Some r" ..
    show ?thesis
      by (simp add: add_season_hit [OF n h] charted_snoc_hit [OF n h] r)
  next
    case False
    show ?thesis
      by (simp add: add_season_miss [OF False] charted_snoc_miss [OF False] snoc.IH)
  qed
qed

lemma find_Some_holds: "find P xs = Some x \<Longrightarrow> P x \<and> x \<in> set xs"
  by (induction xs) (auto split: if_splits)

lemma charted_None_iff:
  "charted n g seasons = None \<longleftrightarrow> \<not> (\<exists>s\<in>set seasons. season s = n \<and> has_game g s)"
proof (cases "find (\<lambda>s. season s = n \<and> has_game g s) (rev seasons)")
  case None
  then have "\<not> (\<exists>s\<in>set seasons. season s = n \<and> has_game g s)"
    by (auto simp: find_None_iff)
  with None show ?thesis by (simp add: charted_def)
next
  case (Some s)
  then have s: "s \<in> set seasons" "season s = n" "has_game g s"
    by (auto dest: find_Some_holds)
  from has_game_find [OF s(3)] obtain r where "find (\<lambda>r. game r = g) (games s) = Some r" ..
  with Some s show ?thesis by (auto simp: charted_def)
qed

lemma has_game_iff: "has_game g s \<longleftrightarrow> (\<exists>r\<in>set (games s). game r = g)"
  by (auto simp: has_game_def find_None_iff)

lemma chartData_nth:
  "i < 82 \<Longrightarrow>
   chartData seasons ! i = fold (add_season (real i + 1)) seasons [Game_key \<mapsto> real i + 1]"
  by (simp add: chartData_def gameNumbers_def)

lemma chartData_season_key:
  "i < 82 \<Longrightarrow> (chartData seasons ! i) (Season_key n) = charted n (real i + 1) seasons"
  by (simp add: chartData_nth fold_add_season_charted split: option.splits)

lemma charted_distinct:
  "distinct (map season seasons) \<Longrightarrow> s \<in> set seasons \<Longrightarrow>
   charted (season s) g seasons = map_option expected_wins (find (\<lambda>r. game r = g) (games s))"
proof (induction seasons rule: rev_induct)
  case Nil
  then show ?case by simp
next
  case (snoc a seasons)
  show ?case
  proof (cases "s = a")
    case True
    show ?thesis
    proof (cases "has_game g a")
      case h: True
      then show ?thesis using True by (simp add: charted_snoc_hit)
    next
      case h: False
      from snoc.prems(1) True have "season s \<notin> season ` set seasons"
        by simp
      then have "\<not> (\<exists>t\<in>set seasons. season t = season s \<and> has_game g t)"
        by (auto simp: image_iff)
      then have "charted (season s) g seasons = None"
        by (simp add: charted_None_iff)
      moreover from h True have "find (\<lambda>r. game r = g) (games s) = None"
        by (simp add: has_game_def)
      ultimately show ?thesis using h True by (simp add: charted_snoc_miss)
    qed
  next
    case False
    with snoc.prems have in_rest: "s \<in> set seasons" and d: "distinct (map season seasons)"
      and ne: "season a \<noteq> season s"
      by auto
    from ne have "\<not> (season a = season s \<and> has_game g a)" by simp
    then show ?thesis using snoc.IH [OF d in_rest] by (simp add: charted_snoc_miss)
  qed
qed

text \<open>
  Two seasons with the same season number share one property of the data point: the
  later one overwrites the earlier one. The first season has a record of game 1 with
  expected wins 1/2, and the point of game 1 carries 3/4 under its season number.
\<close>

theorem C7_duplicate_season_counterexample:
  "length (chartData [season_one (1 / 2), season_one (3 / 4)]) = 82
   \<and> find (\<lambda>g. game g = 1) (games (season_one (1 / 2))) = Some (one_game (1 / 2))
   \<and> (chartData [season_one (1 / 2), season_one (3 / 4)] ! 0)
        (Season_key (season (season_one (1 / 2)))) = Some (3 / 4)
   \<and> expected_wins (one_game (1 / 2)) = 1 / 2"
  by (simp add: chartData_nth add_season_def season_one_def one_game_def)
    (simp add: chartData_def gameNumbers_def)

text \<open>
  C7 (amended): for every list of seasons the chart data has exactly 82 points and the
  point at index i has game number i + 1. The point of game g carries a value under the
  season number n if and only if some season of the list with the number n has a record
  whose game field is g, and the value is the expected wins of the first such record of
  the last such season of the list. So when the season numbers of the list are pairwise
  distinct, the point of game g carries for season s the expected wins of s's first
  record of game g, and carries a value for s if and only if s has a record whose game
  field is g.
\<close>

theorem C7_chart_has_82_points:
  "length (chartData seasons) = 82
   \<and> (\<forall>i<82. (chartData seasons ! i) Game_key = Some (real i + 1))
   \<and> (\<forall>i<82. \<forall>n. (chartData seasons ! i) (Season_key n) = charted n (real i + 1) seasons)
   \<and> (\<forall>i<82. \<forall>n. (chartData seasons ! i) (Season_key n) \<noteq> None
         \<longleftrightarrow> (\<exists>s\<in>set seasons. season s = n \<and> (\<exists>g\<in>set (games s). game g = real i + 1)))
   \<and> (distinct (map season seasons) \<longrightarrow>
        (\<forall>s\<in>set seasons. \<forall>i<82.
           (chartData seasons ! i) (Season_key (season s))
             = map_option expected_wins (find (\<lambda>g. game g = real i + 1) (games s))
           \<and> ((chartData seasons ! i) (Season_key (season s)) \<noteq> None
                \<longleftrightarrow> (\<exists>g\<in>set (games s). game g = real i + 1))))"
proof -
  have len: "length (chartData seasons) = 82"
    by (simp add: chartData_def gameNumbers_def)
  have gm: "(chartData seasons ! i) Game_key = Some (real i + 1)" if "i < 82" for i
    using that by (simp add: chartData_nth fold_add_season_game)
  have gen: "(chartData seasons ! i) (Season_key n) = charted n (real i + 1) seasons"
    if "i < 82" for i n
    using that by (rule chartData_season_key)
  have key: "(chartData seasons ! i) (Season_key n) \<noteq> None
      \<longleftrightarrow> (\<exists>s\<in>set seasons. season s = n \<and> (\<exists>g\<in>set (games s). game g = real i + 1))"
    if "i < 82" for i n
    using that by (simp add: chartData_season_key charted_None_iff has_game_iff)
  have val: "(chartData seasons ! i) (Season_key (season s))
      = map_option expected_wins (find (\<lambda>g. game g = real i + 1) (games s))"
    if "distinct (map season seasons)" "s \<in> set seasons" "i < 82" for s i
    using that by (simp add: chartData_season_key charted_distinct)
  have pres: "(chartData seasons ! i) (Season_key (season s)) \<noteq> None
      \<longleftrightarrow> (\<exists>g\<in>set (games s). game g = real i + 1)"
    if "distinct (map season seasons)" "s \<in> set seasons" "i < 82" for s i
    using val [OF that] by (auto simp: find_None_iff)
  from len gm gen key val pres show ?thesis by blast
qed


theorem C7_chart_witness:
  "distinct (map season
      [season_record 1 [game_record 1 (1 / 2), game_record 2 (6 / 5)],
       season_record 2 [game_record 1 (7 / 10), game_record 3 (21 / 10)]])
   \<and> (chartData
        [season_record 1 [game_record 1 (1 / 2), game_record 2 (6 / 5)],
         season_record 2 [game_record 1 (7 / 10), game_record 3 (21 / 10)]] ! 1) Game_key
       = Some 2
   \<and> (chartData
        [season_record 1 [game_record 1 (1 / 2), game_record 2 (6 / 5)],
         season_record 2 [game_record 1 (7 / 10), game_record 3 (21 / 10)]] ! 0) (Season_key 1)
       = Some (1 / 2)
   \<and> (chartData
        [season_record 1 [game_record 1 (1 / 2), game_record 2 (6 / 5)],
         season_record 2 [game_record 1 (7 / 10), game_record 3 (21 / 10)]] ! 0) (Season_key 2)
       = Some (7 / 10)
   \<and> (chartData
        [season_record 1 [game_record 1 (1 / 2), game_record 2 (6 / 5)],
         season_record 2 [game_record 1 (7 / 10), game_record 3 (21 / 10)]] ! 1) (Season_key 1)
       = Some (6 / 5)
   \<and> (chartData
        [season_record 1 [game_record 1 (1 / 2), game_record 2 (6 / 5)],
         season_record 2 [game_record 1 (7 / 10), game_record 3 (21 / 10)]] ! 1) (Season_key 2)
       = None
   \<and> (chartData
        [season_record 1 [game_record 1 (1 / 2), game_record 2 (6 / 5)],
         season_record 2 [game_record 1 (7 / 10), game_record 3 (21 / 10)]] ! 2) (Season_key 2)
       = Some (21 / 10)
   \<and> (chartData
        [season_record 1 [game_record 1 (1 / 2), game_record 2 (6 / 5)],
         season_record 2 [game_record 1 (7 / 10), game_record 3 (21 / 10)],
         season_record 1 [game_record 1 (9 / 10)]] ! 0) (Season_key 1)
       = Some (9 / 10)
   \<and> (chartData
        [season_record 1 [game_record 1 (1 / 2), game_record 2 (6 / 5)],
         season_record 2 [game_record 1 (7 / 10), game_record 3 (21 / 10)],
         season_record 1 [game_record 1 (9 / 10)]] ! 1) (Season_key 1)
       = Some (6 / 5)"
proof -
  let ?a = "season_record 1 [game_record 1 (1 / 2), game_record 2 (6 / 5)]"
  let ?b = "season_record 2 [game_record 1 (7 / 10), game_record 3 (21 / 10)]"
  let ?c = "season_record 1 [game_record 1 (9 / 10)]"
  have d: "distinct (map season [?a, ?b])"
    by (simp add: season_record_def)
  have a: "?a \<in> set [?a, ?b]" and b: "?b \<in> set [?a, ?b]"
    by simp_all
  note two = C7_chart_has_82_points [of "[?a, ?b]"]
  note three = C7_chart_has_82_points [of "[?a, ?b, ?c]"]
  from two have g: "(chartData [?a, ?b] ! 1) Game_key = Some (real 1 + 1)"
    by simp
  from two d have v: "(chartData [?a, ?b] ! i) (Season_key (season s))
      = map_option expected_wins (find (\<lambda>g. game g = real i + 1) (games s))"
    if "s \<in> set [?a, ?b]" "i < 82" for s i
    using that by blast
  from three have dup: "(chartData [?a, ?b, ?c] ! i) (Season_key n)
      = charted n (real i + 1) [?a, ?b, ?c]"
    if "i < 82" for i n
    using that by blast
  have "(chartData [?a, ?b] ! 0) (Season_key 1) = Some (1 / 2)"
    using v [OF a, of 0] by (simp add: season_record_def game_record_def)
  moreover have "(chartData [?a, ?b] ! 0) (Season_key 2) = Some (7 / 10)"
    using v [OF b, of 0] by (simp add: season_record_def game_record_def)
  moreover have "(chartData [?a, ?b] ! 1) (Season_key 1) = Some (6 / 5)"
    using v [OF a, of 1] by (simp add: season_record_def game_record_def)
  moreover have "(chartData [?a, ?b] ! 1) (Season_key 2) = None"
    using v [OF b, of 1] by (simp add: season_record_def game_record_def)
  moreover have "(chartData [?a, ?b] ! 2) (Season_key 2) = Some (21 / 10)"
    using v [OF b, of 2] by (simp add: season_record_def game_record_def)
  moreover have "(chartData [?a, ?b, ?c] ! 0) (Season_key 1) = Some (9 / 10)"
    using dup [of 0 1]
    by (simp add: charted_def has_game_def season_record_def game_record_def)
  moreover have "(chartData [?a, ?b, ?c] ! 1) (Season_key 1) = Some (6 / 5)"
    using dup [of 1 1]
    by (simp add: charted_def has_game_def season_record_def game_record_def)
  ultimately show ?thesis using d g by simp
qed


end
